theory Spec2Isabelle
  imports Main
begin

section \<open>Strings\<close>

text \<open>
  The component works on JavaScript strings. They are modelled as \<^typ>\<open>string\<close>, a
  character standing for the code unit of the same number: the strings of the model are
  those of code units below 256. Among these \<open>trim\<close> strips the tab, the line feed, the
  vertical tab, the form feed, the carriage return, the space and the no-break space;
  \<open>toLowerCase\<close> maps \<open>A\<close>..\<open>Z\<close> and the capital letters 0xC0..0xDE (but not the
  multiplication sign 0xD7) to the letter 32 places on and leaves every other character
  alone.
\<close>

definition isWhiteSpace :: "char \<Rightarrow> bool" where
  "isWhiteSpace c =
     (c \<in> set [CHR 0x09, CHR 0x0A, CHR 0x0B, CHR 0x0C, CHR 0x0D, CHR 0x20, CHR 0xA0])"

definition trim :: "string \<Rightarrow> string" where
  "trim s = rev (dropWhile isWhiteSpace (rev (dropWhile isWhiteSpace s)))"

definition toLowerChar :: "char \<Rightarrow> char" where
  "toLowerChar c =
     (let n = (of_char c :: nat)
      in if (65 \<le> n \<and> n \<le> 90) \<or> (192 \<le> n \<and> n \<le> 222 \<and> n \<noteq> 215) then char_of (n + 32)
         else c)"

definition toLowerCase :: "string \<Rightarrow> string" where
  "toLowerCase s = map toLowerChar s"

text \<open>
  \<open>s.startsWith(t)\<close> and \<open>s.includes(t)\<close> (here \<open>includesStr\<close>): the search string is
  tried at every position of \<open>s\<close>.
\<close>

fun startsWith :: "string \<Rightarrow> string \<Rightarrow> bool" where
  "startsWith s [] = True"
| "startsWith [] (c # t) = False"
| "startsWith (a # s) (c # t) = (a = c \<and> startsWith s t)"

fun includesStr :: "string \<Rightarrow> string \<Rightarrow> bool" where
  "includesStr [] t = (t = [])"
| "includesStr (a # s) t = (startsWith (a # s) t \<or> includesStr s t)"

text \<open>JavaScript truthiness of a string that may be \<open>null\<close> or \<open>undefined\<close>.\<close>

fun truthy :: "string option \<Rightarrow> bool" where
  "truthy None = False"
| "truthy (Some s) = (s \<noteq> [])"

text \<open>\<open>a || b\<close> on a possibly missing string \<open>a\<close> and a default \<open>b\<close>.\<close>

fun orElse :: "string option \<Rightarrow> string \<Rightarrow> string" where
  "orElse None d = d"
| "orElse (Some s) d = (if s = [] then d else s)"

text \<open>The branch name test \<open>/^([a-zA-Z0-9._\-/]+)$/\<close>.\<close>

definition isBranchChar :: "char \<Rightarrow> bool" where
  "isBranchChar c =
     (let n = (of_char c :: nat) in
        (97 \<le> n \<and> n \<le> 122) \<or> (65 \<le> n \<and> n \<le> 90) \<or> (48 \<le> n \<and> n \<le> 57) \<or>
        c \<in> set [CHR ''.'', CHR ''_'', CHR ''-'', CHR ''/''])"

definition branchNameRegex :: "string \<Rightarrow> bool" where
  "branchNameRegex s = (s \<noteq> [] \<and> list_all isBranchChar s)"

section \<open>Data\<close>

record GitHubRepo =
  name :: string
  full_name :: string
  html_url :: string
  description :: "string option"
  stargazers_count :: int
  forks_count :: int
  default_branch :: string
  updated_at :: string
  language :: "string option"
  private_repo :: bool

text \<open>The fields of \<open>GitHubUserResponse\<close> that the dialog reads.\<close>

record GitHubUserResponse =
  login :: string
  avatar_url :: string
  user_name :: "string option"

text \<open>The value stored under \<open>github_connection\<close> in local storage.\<close>

record github_connection =
  conn_user :: "GitHubUserResponse option"
  conn_token :: "string option"

datatype toast =
    ToastError string
  | ToastRateLimit "string option"

text \<open>
  The state of the component: one field per \<open>useState\<close>, then the local storage slot and
  the toasts raised so far.
\<close>

record dialog_state =
  repoName :: string
  branchName :: string
  branchOptions :: "string list"
  isPrivate :: bool
  isLoading :: bool
  user :: "GitHubUserResponse option"
  recentRepos :: "GitHubRepo list"
  filteredRepos :: "GitHubRepo list"
  repoSearchQuery :: string
  isRepoDropdownOpen :: bool
  focusedRepoIndex :: int
  branchSearchQuery :: string
  isBranchDropdownOpen :: bool
  focusedBranchIndex :: int
  showSuccessDialog :: bool
  createdRepoUrl :: string
  showConfirmDialog :: bool
  showCommitDialog :: bool
  commitMessage :: string
  confirmDialogMessage :: string
  errorMessage :: string
  localStorage :: "github_connection option"
  toasts :: "toast list"

definition initialState :: "github_connection option \<Rightarrow> dialog_state" where
  "initialState conn =
     \<lparr> repoName = '''', branchName = ''main'', branchOptions = [], isPrivate = False,
       isLoading = False, user = None, recentRepos = [], filteredRepos = [],
       repoSearchQuery = '''', isRepoDropdownOpen = False, focusedRepoIndex = -1,
       branchSearchQuery = '''', isBranchDropdownOpen = False, focusedBranchIndex = -1,
       showSuccessDialog = False, createdRepoUrl = '''', showConfirmDialog = False,
       showCommitDialog = False, commitMessage = ''Initial commit'',
       confirmDialogMessage = '''', errorMessage = '''', localStorage = conn, toasts = [] \<rparr>"

section \<open>Combobox filter\<close>

definition filteredReposList :: "dialog_state \<Rightarrow> GitHubRepo list" where
  "filteredReposList s =
     (if trim (repoSearchQuery s) = '''' then recentRepos s
      else filter (\<lambda>repo. includesStr (toLowerCase (name repo)) (toLowerCase (repoSearchQuery s)))
             (recentRepos s))"

definition showCreateNewRepo :: "dialog_state \<Rightarrow> bool" where
  "showCreateNewRepo s =
     (trim (repoSearchQuery s) \<noteq> '''' \<and>
      \<not> list_ex (\<lambda>repo. toLowerCase (name repo) = toLowerCase (trim (repoSearchQuery s)))
          (recentRepos s))"

definition filteredBranchesList :: "dialog_state \<Rightarrow> string list" where
  "filteredBranchesList s =
     (if trim (branchSearchQuery s) = '''' then branchOptions s
      else filter (\<lambda>b. includesStr (toLowerCase b) (toLowerCase (branchSearchQuery s)))
             (branchOptions s))"

definition showCreateNewBranch :: "dialog_state \<Rightarrow> bool" where
  "showCreateNewBranch s =
     (trim (branchSearchQuery s) \<noteq> '''' \<and>
      \<not> list_ex (\<lambda>b. toLowerCase b = toLowerCase (trim (branchSearchQuery s)))
          (branchOptions s))"

text \<open>The effect that maintains \<open>filteredRepos\<close> from \<open>recentRepos\<close> and the repository query.\<close>

definition filteredReposEffect :: "dialog_state \<Rightarrow> dialog_state" where
  "filteredReposEffect s =
     (if length (recentRepos s) = 0 then s\<lparr>filteredRepos := []\<rparr>
      else if trim (repoSearchQuery s) = '''' then s\<lparr>filteredRepos := recentRepos s\<rparr>
      else
        let query = trim (toLowerCase (repoSearchQuery s));
            filtered = filter (\<lambda>repo.
                includesStr (toLowerCase (name repo)) query \<or>
                (case description repo of None \<Rightarrow> False
                 | Some d \<Rightarrow> d \<noteq> '''' \<and> includesStr (toLowerCase d) query) \<or>
                (case language repo of None \<Rightarrow> False
                 | Some l \<Rightarrow> l \<noteq> '''' \<and> includesStr (toLowerCase l) query))
              (recentRepos s)
        in s\<lparr>filteredRepos := filtered\<rparr>)"

text \<open>
  What an open dropdown lists: the filtered options, then the row that creates a new
  entry from the trimmed query, or a notice when there is neither.
\<close>

datatype dropdown_row = OptionRow string | CreateNewRow string | NoneFound

definition repoDropdown :: "dialog_state \<Rightarrow> dropdown_row list option" where
  "repoDropdown s =
     (if isRepoDropdownOpen s then
        Some (if length (filteredReposList s) = 0 \<and> \<not> showCreateNewRepo s then [NoneFound]
              else map (\<lambda>repo. OptionRow (name repo)) (filteredReposList s) @
                   (if showCreateNewRepo s then [CreateNewRow (trim (repoSearchQuery s))] else []))
      else None)"

definition branchDropdown :: "dialog_state \<Rightarrow> dropdown_row list option" where
  "branchDropdown s =
     (if isBranchDropdownOpen s \<and> repoName s \<noteq> '''' then
        Some (if length (filteredBranchesList s) = 0 \<and> \<not> showCreateNewBranch s then [NoneFound]
              else map OptionRow (filteredBranchesList s) @
                   (if showCreateNewBranch s then [CreateNewRow (trim (branchSearchQuery s))]
                    else []))
      else None)"

section \<open>Keyboard navigation\<close>

datatype key = Escape | ArrowDown | ArrowUp | Enter | OtherKey

text \<open>The bound \<open>max\<close> that both arrow handlers compute.\<close>

definition repoMax :: "dialog_state \<Rightarrow> int" where
  "repoMax s =
     (if showCreateNewRepo s then int (length (filteredReposList s))
      else int (length (filteredReposList s)) - 1)"

definition branchMax :: "dialog_state \<Rightarrow> int" where
  "branchMax s =
     (if showCreateNewBranch s then int (length (filteredBranchesList s))
      else int (length (filteredBranchesList s)) - 1)"

definition handleRepoKeyDown :: "key \<Rightarrow> dialog_state \<Rightarrow> dialog_state" where
  "handleRepoKeyDown k s =
     (if \<not> isRepoDropdownOpen s then s
      else case k of
        Escape \<Rightarrow> s\<lparr>isRepoDropdownOpen := False\<rparr>
      | ArrowDown \<Rightarrow>
          (let prev = focusedRepoIndex s
           in s\<lparr>focusedRepoIndex := (if prev + 1 > repoMax s then 0 else prev + 1)\<rparr>)
      | ArrowUp \<Rightarrow>
          (let prev = focusedRepoIndex s
           in s\<lparr>focusedRepoIndex := (if prev - 1 < 0 then repoMax s else prev - 1)\<rparr>)
      | Enter \<Rightarrow>
          (let i = focusedRepoIndex s; l = filteredReposList s
           in if i \<ge> 0 \<and> i < int (length l) then
                s\<lparr>repoName := name (l ! nat i), isRepoDropdownOpen := False,
                  repoSearchQuery := ''''\<rparr>
              else if showCreateNewRepo s \<and> i = int (length l) then
                s\<lparr>repoName := trim (repoSearchQuery s), isRepoDropdownOpen := False,
                  repoSearchQuery := ''''\<rparr>
              else if showCreateNewRepo s \<and> length l = 0 then
                s\<lparr>repoName := trim (repoSearchQuery s), isRepoDropdownOpen := False,
                  repoSearchQuery := ''''\<rparr>
              else s)
      | OtherKey \<Rightarrow> s)"

definition handleBranchKeyDown :: "key \<Rightarrow> dialog_state \<Rightarrow> dialog_state" where
  "handleBranchKeyDown k s =
     (if \<not> isBranchDropdownOpen s then s
      else case k of
        Escape \<Rightarrow> s\<lparr>isBranchDropdownOpen := False\<rparr>
      | ArrowDown \<Rightarrow>
          (let prev = focusedBranchIndex s
           in s\<lparr>focusedBranchIndex := (if prev + 1 > branchMax s then 0 else prev + 1)\<rparr>)
      | ArrowUp \<Rightarrow>
          (let prev = focusedBranchIndex s
           in s\<lparr>focusedBranchIndex := (if prev - 1 < 0 then branchMax s else prev - 1)\<rparr>)
      | Enter \<Rightarrow>
          (let i = focusedBranchIndex s; l = filteredBranchesList s
           in if i \<ge> 0 \<and> i < int (length l) then
                s\<lparr>branchName := l ! nat i, branchSearchQuery := l ! nat i,
                  isBranchDropdownOpen := False\<rparr>
              else if showCreateNewBranch s \<and> i = int (length l) then
                s\<lparr>branchName := trim (branchSearchQuery s),
                  branchSearchQuery := trim (branchSearchQuery s),
                  isBranchDropdownOpen := False\<rparr>
              else if showCreateNewBranch s \<and> length l = 0 then
                s\<lparr>branchName := trim (branchSearchQuery s),
                  branchSearchQuery := trim (branchSearchQuery s),
                  isBranchDropdownOpen := False\<rparr>
              else s)
      | OtherKey \<Rightarrow> s)"

text \<open>The two effects that reset the focus index when a query or a dropdown changes.\<close>

definition resetRepoFocusEffect :: "dialog_state \<Rightarrow> dialog_state" where
  "resetRepoFocusEffect s = s\<lparr>focusedRepoIndex := -1\<rparr>"

definition resetBranchFocusEffect :: "dialog_state \<Rightarrow> dialog_state" where
  "resetBranchFocusEffect s = s\<lparr>focusedBranchIndex := -1\<rparr>"

section \<open>Repository lister\<close>

text \<open>
  A request of the pagination loop, and what the network answers. \<open>fetch\<close> itself may
  throw. The response may be not ok, with its status, status text, the two rate limit
  headers and a body that does not parse, is \<open>null\<close>, or is a value with or without a
  \<open>message\<close>. It may be ok with a body that does not parse (\<open>OkResponse None\<close>) or parses
  to a list of repositories. Or it is ok and its body parses to something that is not a
  list, which the cast \<open>as GitHubRepo[]\<close> lets through: \<open>null\<close>, or another value, of which
  the loop reads only whether \<open>repos.length < 100\<close> holds (it does not for an object
  without \<open>length\<close>, a number or a boolean).
\<close>

datatype repo_request = ListRepos (per_page: nat) (page: nat)

datatype error_body = BodyUnparseable | BodyNull | BodyJson "string option"

datatype not_array = JsonNull | JsonValue bool

datatype http_response =
    FetchThrows
  | NotOk int string "string option" "string option" error_body
  | OkResponse "GitHubRepo list option"
  | OkNotArray not_array

definition addToast :: "toast \<Rightarrow> dialog_state \<Rightarrow> dialog_state" where
  "addToast t s = s\<lparr>toasts := toasts s @ [t]\<rparr>"

text \<open>
  The branch of a response that is not ok. Reading \<open>errorData.message\<close> of the body
  \<open>null\<close> throws; the \<open>catch\<close> around the loop then raises its own toast.
\<close>

definition handleNotOk ::
  "int \<Rightarrow> string \<Rightarrow> string option \<Rightarrow> string option \<Rightarrow> error_body \<Rightarrow> dialog_state \<Rightarrow> dialog_state"
where
  "handleNotOk status statusText remaining reset body s =
     (if status = 401 then
        (let s1 = addToast (ToastError ''GitHub token expired. Please reconnect your account.'') s
         in case localStorage s1 of
              None \<Rightarrow> s1
            | Some connection \<Rightarrow> s1\<lparr>localStorage := None, user := None\<rparr>)
      else if status = 403 \<and> remaining = Some ''0'' then addToast (ToastRateLimit reset) s
      else
        (case body of
           BodyNull \<Rightarrow> addToast (ToastError ''Failed to fetch recent repositories'') s
         | BodyUnparseable \<Rightarrow>
             addToast (ToastError (''Failed to fetch repositories: '' @
                         orElse (Some ''Could not parse error response'') statusText)) s
         | BodyJson message \<Rightarrow>
             addToast (ToastError (''Failed to fetch repositories: '' @
                         orElse message statusText)) s))"

text \<open>
  An entry of \<open>allRepos\<close>: a repository, or a body that was not a list and that \<open>concat\<close>
  appended as it was.
\<close>

datatype repo_entry = Repo GitHubRepo | NotARepo

fun typedRepos :: "repo_entry list \<Rightarrow> GitHubRepo list option" where
  "typedRepos [] = Some []"
| "typedRepos (NotARepo # es) = None"
| "typedRepos (Repo r # es) = map_option ((#) r) (typedRepos es)"

text \<open>
  How a run of the lister ends: not within the fuel given; with a state; or by setting
  \<open>recentRepos\<close> to a list that has an entry which is no repository, from the state given.
\<close>

datatype fetch_result =
    Unfinished
  | Returned dialog_state
  | ReturnedUntyped dialog_state "repo_entry list"

definition setRecentRepos :: "repo_entry list \<Rightarrow> dialog_state \<Rightarrow> fetch_result" where
  "setRecentRepos allRepos s =
     (case typedRepos allRepos of
        Some repos \<Rightarrow> Returned (s\<lparr>recentRepos := repos\<rparr>)
      | None \<Rightarrow> ReturnedUntyped s allRepos)"

text \<open>
  The \<open>while (hasMore)\<close> loop, with fuel: the result is \<open>Unfinished\<close> when the fuel runs
  out before the loop is left. The second component lists the requests made, in order.
\<close>

fun fetchLoop ::
  "nat \<Rightarrow> (repo_request \<Rightarrow> http_response) \<Rightarrow> dialog_state \<Rightarrow> repo_entry list \<Rightarrow> nat \<Rightarrow>
   repo_request list \<Rightarrow> fetch_result \<times> repo_request list"
where
  "fetchLoop 0 srv s allRepos pg reqs = (Unfinished, reqs)"
| "fetchLoop (Suc fuel) srv s allRepos pg reqs =
     (let rq = ListRepos 100 pg; reqs' = reqs @ [rq];
          parseFailed = Returned ((addToast (ToastError ''Failed to parse repository data'') s)
                                    \<lparr>recentRepos := []\<rparr>)
      in case srv rq of
           FetchThrows \<Rightarrow>
             (Returned (addToast (ToastError ''Failed to fetch recent repositories'') s), reqs')
         | NotOk status statusText remaining reset body \<Rightarrow>
             (Returned (handleNotOk status statusText remaining reset body s), reqs')
         | OkResponse None \<Rightarrow> (parseFailed, reqs')
         | OkResponse (Some repos) \<Rightarrow>
             if length repos < 100 then (setRecentRepos (allRepos @ map Repo repos) s, reqs')
             else fetchLoop fuel srv s (allRepos @ map Repo repos) (pg + 1) reqs'
         | OkNotArray JsonNull \<Rightarrow> (parseFailed, reqs')
         | OkNotArray (JsonValue lengthBelow100) \<Rightarrow>
             if lengthBelow100 then (setRecentRepos (allRepos @ [NotARepo]) s, reqs')
             else fetchLoop fuel srv s (allRepos @ [NotARepo]) (pg + 1) reqs')"

text \<open>
  A full page is an ok response whose body parses to 100 repositories or more. The loop
  goes on after a full page, and after a body that is not a list and for which
  \<open>repos.length < 100\<close> does not hold.
\<close>

definition fullPage :: "http_response \<Rightarrow> bool" where
  "fullPage r = (case r of OkResponse (Some repos) \<Rightarrow> 100 \<le> length repos | _ \<Rightarrow> False)"

definition goesOn :: "http_response \<Rightarrow> bool" where
  "goesOn r = (fullPage r \<or> r = OkNotArray (JsonValue False))"

definition fetchRecentRepos ::
  "nat \<Rightarrow> (repo_request \<Rightarrow> http_response) \<Rightarrow> string \<Rightarrow> dialog_state \<Rightarrow>
   fetch_result \<times> repo_request list"
where
  "fetchRecentRepos fuel srv token s =
     (if token = '''' then
        (Returned (addToast (ToastError ''GitHub authentication required'') s), [])
      else fetchLoop fuel srv s [] 1 [])"

section \<open>Submission workflow\<close>

text \<open>
  A value thrown by a callee: \<open>undefined\<close> or \<open>null\<close>, or a value with its \<open>status\<close> and
  \<open>message\<close> properties, each of which may be missing. The handlers read a property only
  of a value that is neither \<open>undefined\<close> nor \<open>null\<close>, of the others the read itself
  throws; the two selectors are \<open>None\<close> there for the sake of totality. A call either
  resolves with a value or rejects with a thrown value.
\<close>

datatype nullish = Undefined | Null

datatype api_error =
    Nullish nullish
  | ErrorObject (err_status: "int option") (err_message: "string option")
where
  "err_status (Nullish n) = None"
| "err_message (Nullish n) = None"

datatype 'a promise = Resolves 'a | Rejects api_error

text \<open>
  The \<open>TypeError\<close> of reading the property \<open>prop\<close> of \<open>undefined\<close> or \<open>null\<close>. Its message
  is the engine's; the text is that of V8.
\<close>

definition typeErrorReading :: "nullish \<Rightarrow> string \<Rightarrow> api_error" where
  "typeErrorReading n prop =
     ErrorObject None
       (Some (''Cannot read properties of '' @
              (case n of Undefined \<Rightarrow> ''undefined'' | Null \<Rightarrow> ''null'') @
              '' (reading '' @ [CHR 0x27] @ prop @ [CHR 0x27] @ '')''))"

text \<open>
  The two Octokit calls of the existence check. \<open>repos_get owner repo\<close> resolves with the
  repository's \<open>private\<close> flag, \<open>git_getRef owner repo ref\<close> with nothing the dialog reads.
\<close>

record octokit =
  repos_get :: "string \<Rightarrow> string \<Rightarrow> bool promise"
  git_getRef :: "string \<Rightarrow> string \<Rightarrow> string \<Rightarrow> unit promise"

datatype api_call = ReposGet string string | GitGetRef string string string

text \<open>\<open>!connection?.token || !connection?.user\<close> fails: the user of a usable connection.\<close>

definition connectedUser :: "github_connection option \<Rightarrow> GitHubUserResponse option" where
  "connectedUser connection =
     (case connection of
        None \<Rightarrow> None
      | Some c \<Rightarrow> if truthy (conn_token c) then conn_user c else None)"

text \<open>
  The nested \<open>try\<close> blocks that look the repository and the branch up. The result is the
  error that leaves both blocks, or \<open>(repoExists, branchExists, repoData)\<close>; the second
  component lists the calls made. A \<open>catch\<close> block that reads \<open>status\<close> of \<open>undefined\<close> or
  \<open>null\<close> throws a \<open>TypeError\<close>, which has no status and leaves both blocks.
\<close>

definition checkExistence ::
  "octokit \<Rightarrow> string \<Rightarrow> string \<Rightarrow> string \<Rightarrow>
   (api_error + bool \<times> bool \<times> bool option) \<times> api_call list"
where
  "checkExistence api owner repo branch =
     (case repos_get api owner repo of
        Rejects error \<Rightarrow>
          (case error of
             Nullish n \<Rightarrow> Inl (typeErrorReading n ''status'')
           | ErrorObject status message \<Rightarrow>
               if status \<noteq> Some 404 then Inl error else Inr (False, False, None),
           [ReposGet owner repo])
      | Resolves repoPrivate \<Rightarrow>
          (let ref = ''heads/'' @ trim branch;
               calls = [ReposGet owner repo, GitGetRef owner repo ref]
           in case git_getRef api owner repo ref of
                Resolves _ \<Rightarrow> (Inr (True, True, Some repoPrivate), calls)
              | Rejects err \<Rightarrow>
                  (case err of
                     Nullish n \<Rightarrow> Inl (typeErrorReading n ''status'')
                   | ErrorObject status message \<Rightarrow>
                       if status \<noteq> Some 404 then Inl err
                       else Inr (True, False, Some repoPrivate), calls)))"

definition visibilityChanges :: "bool option \<Rightarrow> bool \<Rightarrow> bool" where
  "visibilityChanges repoData isPriv =
     (case repoData of None \<Rightarrow> False | Some repoPrivate \<Rightarrow> repoPrivate \<noteq> isPriv)"

definition confirmMessage :: "string \<Rightarrow> string \<Rightarrow> bool \<Rightarrow> bool option \<Rightarrow> bool \<Rightarrow> string" where
  "confirmMessage branch repo branchExists repoData isPriv =
     ''You are pushing to branch '' @ [CHR 0x22] @ trim branch @ [CHR 0x22] @ '' in repo '' @
       [CHR 0x22] @ repo @ [CHR 0x22] @ ''.'' @
     (if branchExists
      then '' Existing files with the same name will be updated. No files will be deleted.''
      else '' A new branch will be created.'') @
     (if visibilityChanges repoData isPriv then
        (if isPriv then '' This will also change the repository from public to private.''
         else '' This will also change the repository from private to public.'')
      else '''')"

text \<open>
  The outermost \<open>catch\<close> block of \<open>handleSubmit\<close>: it clears the loading flag and then reads
  the message of the error.
\<close>

definition submitFailed :: "api_error \<Rightarrow> dialog_state \<Rightarrow> dialog_state" where
  "submitFailed error s =
     (case error of
        Nullish n \<Rightarrow> s\<lparr>isLoading := False\<rparr>
      | ErrorObject status message \<Rightarrow>
          s\<lparr>isLoading := False,
            errorMessage := orElse message ''Failed to check repository.''\<rparr>)"

definition handleSubmit :: "octokit \<Rightarrow> dialog_state \<Rightarrow> dialog_state \<times> api_call list" where
  "handleSubmit api s0 =
     (let s = s0\<lparr>errorMessage := ''''\<rparr>
      in case connectedUser (localStorage s) of
           None \<Rightarrow>
             (s\<lparr>errorMessage :=
                  ''Please connect your GitHub account in Settings > Connections first''\<rparr>, [])
         | Some u \<Rightarrow>
             if trim (repoName s) = '''' then
               (s\<lparr>errorMessage := ''Repository name is required''\<rparr>, [])
             else if trim (branchName s) = '''' \<or> \<not> branchNameRegex (branchName s) then
               (s\<lparr>errorMessage := ''Please enter a valid branch name.''\<rparr>, [])
             else
               (let s1 = s\<lparr>isLoading := True\<rparr>
                in case checkExistence api (login u) (repoName s) (branchName s) of
                     (Inl error, calls) \<Rightarrow> (submitFailed error s1, calls)
                   | (Inr (repoExists, branchExists, repoData), calls) \<Rightarrow>
                       if repoExists \<and> (branchExists \<or> visibilityChanges repoData (isPrivate s))
                       then
                         (s1\<lparr>confirmDialogMessage :=
                               confirmMessage (branchName s) (repoName s) branchExists repoData
                                 (isPrivate s),
                             showConfirmDialog := True, isLoading := False\<rparr>, calls)
                       else (s1\<lparr>showCommitDialog := True, isLoading := False\<rparr>, calls)))"

definition handleConfirmProceed :: "dialog_state \<Rightarrow> dialog_state" where
  "handleConfirmProceed s = s\<lparr>showConfirmDialog := False, showCommitDialog := True\<rparr>"

section \<open>Push\<close>

record push_args =
  push_repoName :: string
  push_username :: string
  push_token :: "string option"
  push_isPrivate :: bool
  push_branchName :: string
  push_commitMessage :: string

text \<open>The arguments that the push callback is called with.\<close>

definition pushArguments :: "dialog_state \<Rightarrow> github_connection \<Rightarrow> GitHubUserResponse \<Rightarrow> push_args" where
  "pushArguments s connection u =
     \<lparr> push_repoName = repoName s, push_username = login u,
       push_token = conn_token connection, push_isPrivate = isPrivate s,
       push_branchName = branchName s, push_commitMessage = commitMessage s \<rparr>"

text \<open>
  Reading \<open>connection.user.login\<close> throws a \<open>TypeError\<close> inside the \<open>try\<close> block when the
  connection is \<open>null\<close> or has no user. When the callback rejects with \<open>undefined\<close> or
  \<open>null\<close>, reading \<open>error.message\<close> throws inside the \<open>catch\<close> block: no message is set, the
  \<open>finally\<close> block clears the loading flag, and the error leaves the handler. The second
  component lists the calls of the push callback.
\<close>

definition handleCommitProceed ::
  "(push_args \<Rightarrow> string promise) \<Rightarrow> dialog_state \<Rightarrow> dialog_state \<times> push_args list"
where
  "handleCommitProceed onPush s0 =
     (let s = s0\<lparr>showCommitDialog := False, isLoading := True, errorMessage := ''''\<rparr>;
          failed = (\<lambda>error.
                      case error of
                        Nullish n \<Rightarrow> s\<lparr>isLoading := False\<rparr>
                      | ErrorObject status message \<Rightarrow>
                          s\<lparr>errorMessage := orElse message ''Failed to push to GitHub.'',
                            isLoading := False\<rparr>)
      in case localStorage s of
           None \<Rightarrow> (failed (typeErrorReading Null ''user''), [])
         | Some connection \<Rightarrow>
             (case conn_user connection of
                None \<Rightarrow> (failed (typeErrorReading Undefined ''login''), [])
              | Some u \<Rightarrow>
                  (let args = pushArguments s0 connection u
                   in case onPush args of
                        Resolves repoUrl \<Rightarrow>
                          (s\<lparr>createdRepoUrl := repoUrl, showSuccessDialog := True,
                             isLoading := False\<rparr>, [args])
                      | Rejects error \<Rightarrow> (failed error, [args]))))"

section \<open>Closing and resetting\<close>

definition handleClose :: "dialog_state \<Rightarrow> dialog_state" where
  "handleClose s =
     s\<lparr>repoName := '''', isPrivate := False, showSuccessDialog := False, createdRepoUrl := ''''\<rparr>"

text \<open>The effect that runs whenever the \<open>isOpen\<close> property changes.\<close>

definition resetEffect :: "bool \<Rightarrow> dialog_state \<Rightarrow> dialog_state" where
  "resetEffect isOpen s =
     (if \<not> isOpen then
        s\<lparr>repoName := '''', repoSearchQuery := '''', branchName := ''main'',
          branchSearchQuery := '''', isRepoDropdownOpen := False, isBranchDropdownOpen := False,
          focusedRepoIndex := -1, focusedBranchIndex := -1, errorMessage := '''',
          showSuccessDialog := False, createdRepoUrl := '''', showConfirmDialog := False,
          showCommitDialog := False, commitMessage := ''Initial commit'',
          confirmDialogMessage := ''''\<rparr>
      else s)"

section \<open>Result views\<close>

text \<open>
  What the component returns: the success dialog with the repository URL and the rows of
  its \<open>Pushed Files\<close> section (the text of each row and whether it carries the
  \<open>Private\<close> badge), the notice that a connection is required, or the form with its
  inline error message, the two dropdowns, the confirmation dialog (its message when
  open) and the commit message dialog (its input when open).
\<close>

datatype view =
    SuccessView string "(string \<times> bool) list"
  | ConnectionRequiredView
  | FormView "string option" "dropdown_row list option" "dropdown_row list option"
      "string option" "string option"

definition render :: "dialog_state \<Rightarrow> view" where
  "render s =
     (if showSuccessDialog s then
        SuccessView (createdRepoUrl s) (map (\<lambda>repo. (name repo, private_repo repo)) (filteredRepos s))
      else if user s = None then ConnectionRequiredView
      else FormView (if errorMessage s \<noteq> '''' then Some (errorMessage s) else None)
             (repoDropdown s) (branchDropdown s)
             (if showConfirmDialog s then Some (confirmDialogMessage s) else None)
             (if showCommitDialog s then Some (commitMessage s) else None))"

section \<open>Example inputs\<close>

definition mkRepo :: "string \<Rightarrow> bool \<Rightarrow> GitHubRepo" where
  "mkRepo n p =
     \<lparr> name = n, full_name = ''octocat/'' @ n, html_url = ''https://github.com/octocat/'' @ n,
       description = None, stargazers_count = 0, forks_count = 0, default_branch = ''main'',
       updated_at = ''2024-01-01T00:00:00Z'', language = None, private_repo = p \<rparr>"

definition octocat :: GitHubUserResponse where
  "octocat = \<lparr> login = ''octocat'', avatar_url = ''https://github.com/octocat.png'',
               user_name = None \<rparr>"

definition octocatConnection :: github_connection where
  "octocatConnection = \<lparr> conn_user = Some octocat, conn_token = Some ''ghp_token'' \<rparr>"

text \<open>An open dialog of a connected user with three repositories and three branches.\<close>

definition connectedState :: dialog_state where
  "connectedState =
     (initialState (Some octocatConnection))
       \<lparr> user := Some octocat,
         recentRepos := [mkRepo ''Foo-Bar'' False, mkRepo ''baz'' True, mkRepo ''food'' False],
         filteredRepos := [mkRepo ''Foo-Bar'' False, mkRepo ''baz'' True, mkRepo ''food'' False],
         branchOptions := [''main'', ''dev'', ''feature/Main-2''] \<rparr>"

text \<open>The user has typed \<open>oO\<close> into the repository box and \<open>MAIN\<close> into the branch box.\<close>

definition searchingState :: dialog_state where
  "searchingState =
     connectedState \<lparr> repoName := ''Foo-Bar'', repoSearchQuery := ''oO'',
                      isRepoDropdownOpen := True, branchSearchQuery := ''MAIN'',
                      isBranchDropdownOpen := True \<rparr>"

text \<open>The user has typed \<open>foo\<close> and \<open>mai\<close>: each is a proper part of an existing option.\<close>

definition partialMatchState :: dialog_state where
  "partialMatchState =
     connectedState \<lparr> repoName := ''baz'', repoSearchQuery := ''foo'',
                      isRepoDropdownOpen := True, branchSearchQuery := ''mai'',
                      isBranchDropdownOpen := True \<rparr>"

text \<open>A connected user without any repository opens the repository dropdown.\<close>

definition noReposState :: dialog_state where
  "noReposState =
     (initialState (Some octocatConnection))
       \<lparr> user := Some octocat, isRepoDropdownOpen := True \<rparr>"

text \<open>
  The account has the public repository \<open>Foo-Bar\<close> with the branch \<open>main\<close> and nothing
  else.
\<close>

definition notFound :: api_error where
  "notFound = ErrorObject (Some 404) (Some ''Not Found'')"

definition exampleOctokit :: octokit where
  "exampleOctokit =
     \<lparr> repos_get = (\<lambda>owner repo.
         if owner = ''octocat'' \<and> repo = ''Foo-Bar'' then Resolves False else Rejects notFound),
       git_getRef = (\<lambda>owner repo ref.
         if owner = ''octocat'' \<and> repo = ''Foo-Bar'' \<and> ref = ''heads/main'' then Resolves ()
         else Rejects notFound) \<rparr>"

text \<open>The form filled in for the existing repository and branch, and for a new repository.\<close>

definition readyState :: dialog_state where
  "readyState = connectedState \<lparr> repoName := ''Foo-Bar'', branchName := ''main'' \<rparr>"

definition freshState :: dialog_state where
  "freshState = connectedState \<lparr> repoName := ''fresh'', branchName := ''dev'' \<rparr>"

text \<open>The commit message dialog is open on the form for the new repository.\<close>

definition commitState :: dialog_state where
  "commitState = freshState \<lparr> showCommitDialog := True \<rparr>"

definition pushResolves :: "push_args \<Rightarrow> string promise" where
  "pushResolves args = Resolves (''https://github.com/'' @ push_username args @ ''/'' @ push_repoName args)"

definition pushRejects :: "push_args \<Rightarrow> string promise" where
  "pushRejects args = Rejects (ErrorObject None None)"

text \<open>A callback that rejects with nothing, as \<open>Promise.reject()\<close> does.\<close>

definition pushRejectsUndefined :: "push_args \<Rightarrow> string promise" where
  "pushRejectsUndefined args = Rejects (Nullish Undefined)"

text \<open>The user has ticked the \<open>private\<close> checkbox of the form.\<close>

definition tickedState :: dialog_state where
  "tickedState = readyState \<lparr> isPrivate := True \<rparr>"

text \<open>
  A network that answers page 1 with 100 repositories, page 2 with two, and any other
  page with an error.
\<close>

definition twoPages :: "repo_request \<Rightarrow> http_response" where
  "twoPages rq =
     (if page rq = 1 then OkResponse (Some (replicate 100 (mkRepo ''old'' False)))
      else if page rq = 2 then OkResponse (Some [mkRepo ''Foo-Bar'' False, mkRepo ''baz'' True])
      else NotOk 404 ''Not Found'' None None BodyUnparseable)"

text \<open>A network that answers every page with status 200 and the body \<open>{}\<close>.\<close>

definition objectPages :: "repo_request \<Rightarrow> http_response" where
  "objectPages rq = OkNotArray (JsonValue False)"

section \<open>Properties of the string functions\<close>

lemma startsWith_iff: "startsWith s t \<longleftrightarrow> (\<exists>suf. s = t @ suf)"
  by (induction s t rule: startsWith.induct) auto

lemma includesStr_iff: "includesStr s t \<longleftrightarrow> (\<exists>pre suf. s = pre @ t @ suf)"
proof (induction s)
  case Nil
  then show ?case by simp
next
  case (Cons a s)
  have "(\<exists>pre suf. a # s = pre @ t @ suf) \<longleftrightarrow>
        (\<exists>suf. a # s = t @ suf) \<or> (\<exists>pre suf. s = pre @ t @ suf)"
    by (auto simp: Cons_eq_append_conv)
  with Cons show ?case by (simp add: startsWith_iff del: startsWith.simps)
qed

lemma includesStr_refl: "includesStr s s"
proof -
  have "s = [] @ s @ []" by simp
  then show ?thesis unfolding includesStr_iff by blast
qed

lemma orElse_nonempty: "d \<noteq> [] \<Longrightarrow> orElse m d \<noteq> []"
  by (cases m) auto

section \<open>Combobox filter: the filtered lists\<close>

text \<open>
  C6. The combobox filter is a substring filter. For a query whose trimmed content is not
  blank, the filtered repository list is the list of repositories whose lower-cased name
  contains the lower-cased query as a contiguous part, in the order of \<open>recentRepos\<close>; the
  filtered branch list is the same over the branch names. For a blank query each filtered
  list is the full list.
\<close>

theorem combobox_filter_is_substring_filter:
  "(trim (repoSearchQuery s) \<noteq> '''' \<longrightarrow>
      filteredReposList s =
        filter (\<lambda>repo. \<exists>pre suf. toLowerCase (name repo) =
                                   pre @ toLowerCase (repoSearchQuery s) @ suf)
          (recentRepos s)) \<and>
   (trim (branchSearchQuery s) \<noteq> '''' \<longrightarrow>
      filteredBranchesList s =
        filter (\<lambda>b. \<exists>pre suf. toLowerCase b = pre @ toLowerCase (branchSearchQuery s) @ suf)
          (branchOptions s)) \<and>
   (trim (repoSearchQuery s) = '''' \<longrightarrow> filteredReposList s = recentRepos s) \<and>
   (trim (branchSearchQuery s) = '''' \<longrightarrow> filteredBranchesList s = branchOptions s)"
  by (simp add: filteredReposList_def filteredBranchesList_def includesStr_iff)

theorem combobox_filter_is_substring_filter_witness:
  "trim (repoSearchQuery searchingState) \<noteq> '''' \<and>
   trim (branchSearchQuery searchingState) \<noteq> '''' \<and>
   filteredReposList searchingState = [mkRepo ''Foo-Bar'' False, mkRepo ''food'' False] \<and>
   filteredBranchesList searchingState = [''main'', ''feature/Main-2''] \<and>
   filter (\<lambda>repo. \<exists>pre suf. toLowerCase (name repo) =
                              pre @ toLowerCase (repoSearchQuery searchingState) @ suf)
     (recentRepos searchingState) = [mkRepo ''Foo-Bar'' False, mkRepo ''food'' False] \<and>
   filter (\<lambda>b. \<exists>pre suf. toLowerCase b = pre @ toLowerCase (branchSearchQuery searchingState) @ suf)
     (branchOptions searchingState) = [''main'', ''feature/Main-2''] \<and>
   trim (repoSearchQuery connectedState) = '''' \<and>
   trim (branchSearchQuery connectedState) = '''' \<and>
   filteredReposList connectedState = recentRepos connectedState \<and>
   filteredBranchesList connectedState = branchOptions connectedState"
proof -
  have q: "trim (repoSearchQuery searchingState) \<noteq> ''''"
          "trim (branchSearchQuery searchingState) \<noteq> ''''"
    by code_simp+
  have b: "trim (repoSearchQuery connectedState) = ''''"
          "trim (branchSearchQuery connectedState) = ''''"
    by code_simp+
  have v: "filteredReposList searchingState = [mkRepo ''Foo-Bar'' False, mkRepo ''food'' False]"
          "filteredBranchesList searchingState = [''main'', ''feature/Main-2'']"
    by code_simp+
  show ?thesis
    using combobox_filter_is_substring_filter [of searchingState]
          combobox_filter_is_substring_filter [of connectedState] q b v
    by simp
qed

section \<open>Combobox filter: the row that creates a new entry\<close>

lemma showCreateNewRepo_iff:
  "showCreateNewRepo s \<longleftrightarrow>
     trim (repoSearchQuery s) \<noteq> '''' \<and>
     (\<forall>repo \<in> set (recentRepos s).
        toLowerCase (name repo) \<noteq> toLowerCase (trim (repoSearchQuery s)))"
  by (auto simp: showCreateNewRepo_def list_ex_iff)

lemma showCreateNewBranch_iff:
  "showCreateNewBranch s \<longleftrightarrow>
     trim (branchSearchQuery s) \<noteq> '''' \<and>
     (\<forall>b \<in> set (branchOptions s). toLowerCase b \<noteq> toLowerCase (trim (branchSearchQuery s)))"
  by (auto simp: showCreateNewBranch_def list_ex_iff)

lemma repoDropdown_CreateNewRow:
  "repoDropdown s = Some rows \<Longrightarrow> (\<exists>x. CreateNewRow x \<in> set rows) \<longleftrightarrow> showCreateNewRepo s"
  by (auto simp: repoDropdown_def split: if_splits)

lemma branchDropdown_CreateNewRow:
  "branchDropdown s = Some rows \<Longrightarrow> (\<exists>x. CreateNewRow x \<in> set rows) \<longleftrightarrow> showCreateNewBranch s"
  by (auto simp: branchDropdown_def split: if_splits)

text \<open>
  A query without surrounding white space that the filter matches against nothing has no
  equal option either, so the row is offered.
\<close>

lemma no_match_showCreateNewRepo:
  assumes "trim (repoSearchQuery s) = repoSearchQuery s" "repoSearchQuery s \<noteq> ''''"
    and "filteredReposList s = []"
  shows "showCreateNewRepo s"
proof -
  have "\<not> includesStr (toLowerCase (name repo)) (toLowerCase (repoSearchQuery s))"
    if "repo \<in> set (recentRepos s)" for repo
    using assms that by (auto simp: filteredReposList_def filter_empty_conv)
  then have "toLowerCase (name repo) \<noteq> toLowerCase (repoSearchQuery s)"
    if "repo \<in> set (recentRepos s)" for repo
    using that includesStr_refl by metis
  then show ?thesis using assms by (simp add: showCreateNewRepo_iff)
qed

text \<open>
  C5, as stated, says that for a query that is not blank the row that creates a new entry
  is shown exactly when the filter leaves no option. With the repositories \<open>Foo-Bar\<close>,
  \<open>baz\<close>, \<open>food\<close> and the query \<open>foo\<close> the filter leaves two options and the row is shown
  all the same; so with the branches \<open>main\<close>, \<open>dev\<close>, \<open>feature/Main-2\<close> and the query
  \<open>mai\<close>.
\<close>

theorem create_new_row_shown_despite_matches:
  "trim (repoSearchQuery partialMatchState) \<noteq> '''' \<and>
   filteredReposList partialMatchState \<noteq> [] \<and>
   showCreateNewRepo partialMatchState \<and>
   repoDropdown partialMatchState =
     Some [OptionRow ''Foo-Bar'', OptionRow ''food'', CreateNewRow ''foo''] \<and>
   trim (branchSearchQuery partialMatchState) \<noteq> '''' \<and>
   filteredBranchesList partialMatchState \<noteq> [] \<and>
   showCreateNewBranch partialMatchState \<and>
   branchDropdown partialMatchState =
     Some [OptionRow ''main'', OptionRow ''feature/Main-2'', CreateNewRow ''mai'']"
  by code_simp

text \<open>
  C5, amended. For a query that is not blank, an open dropdown shows the row that creates
  a new repository (a new branch) exactly when no repository name (no branch name) is
  equal to the trimmed query up to letter case.
\<close>

theorem create_new_row_iff_no_equal_option:
  "(repoDropdown s = Some rows \<longrightarrow> trim (repoSearchQuery s) \<noteq> '''' \<longrightarrow>
      ((\<exists>x. CreateNewRow x \<in> set rows) \<longleftrightarrow>
       (\<forall>repo \<in> set (recentRepos s).
          toLowerCase (name repo) \<noteq> toLowerCase (trim (repoSearchQuery s))))) \<and>
   (branchDropdown s = Some rows' \<longrightarrow> trim (branchSearchQuery s) \<noteq> '''' \<longrightarrow>
      ((\<exists>x. CreateNewRow x \<in> set rows') \<longleftrightarrow>
       (\<forall>b \<in> set (branchOptions s).
          toLowerCase b \<noteq> toLowerCase (trim (branchSearchQuery s)))))"
  using repoDropdown_CreateNewRow [of s rows] branchDropdown_CreateNewRow [of s rows']
  by (simp add: showCreateNewRepo_iff showCreateNewBranch_iff)

theorem create_new_row_iff_no_equal_option_witness:
  "repoDropdown partialMatchState =
     Some [OptionRow ''Foo-Bar'', OptionRow ''food'', CreateNewRow ''foo''] \<and>
   trim (repoSearchQuery partialMatchState) \<noteq> '''' \<and>
   \<not> (\<exists>repo \<in> set (recentRepos partialMatchState).
        toLowerCase (name repo) = toLowerCase (trim (repoSearchQuery partialMatchState))) \<and>
   branchDropdown searchingState = Some [OptionRow ''main'', OptionRow ''feature/Main-2''] \<and>
   trim (branchSearchQuery searchingState) \<noteq> '''' \<and>
   (\<exists>b \<in> set (branchOptions searchingState).
      toLowerCase b = toLowerCase (trim (branchSearchQuery searchingState)))"
proof -
  have r: "repoDropdown partialMatchState =
             Some [OptionRow ''Foo-Bar'', OptionRow ''food'', CreateNewRow ''foo'']"
          "trim (repoSearchQuery partialMatchState) \<noteq> ''''"
    by code_simp+
  have b: "branchDropdown searchingState = Some [OptionRow ''main'', OptionRow ''feature/Main-2'']"
          "trim (branchSearchQuery searchingState) \<noteq> ''''"
    by code_simp+
  have "\<not> (\<exists>repo \<in> set (recentRepos partialMatchState).
          toLowerCase (name repo) = toLowerCase (trim (repoSearchQuery partialMatchState)))"
    using create_new_row_iff_no_equal_option
            [of partialMatchState "[OptionRow ''Foo-Bar'', OptionRow ''food'', CreateNewRow ''foo'']"
                "[]"] r
    by simp
  moreover have "\<exists>b \<in> set (branchOptions searchingState).
          toLowerCase b = toLowerCase (trim (branchSearchQuery searchingState))"
    using create_new_row_iff_no_equal_option
            [of searchingState "[]" "[OptionRow ''main'', OptionRow ''feature/Main-2'']"] b
    by simp
  ultimately show ?thesis using r b by simp
qed

section \<open>Keyboard navigation: the focused index\<close>

lemma repo_arrow_index:
  "isRepoDropdownOpen s \<Longrightarrow>
   focusedRepoIndex (handleRepoKeyDown ArrowDown s) =
     (if focusedRepoIndex s + 1 > repoMax s then 0 else focusedRepoIndex s + 1) \<and>
   focusedRepoIndex (handleRepoKeyDown ArrowUp s) =
     (if focusedRepoIndex s - 1 < 0 then repoMax s else focusedRepoIndex s - 1)"
  by (simp add: handleRepoKeyDown_def Let_def)

lemma branch_arrow_index:
  "isBranchDropdownOpen s \<Longrightarrow>
   focusedBranchIndex (handleBranchKeyDown ArrowDown s) =
     (if focusedBranchIndex s + 1 > branchMax s then 0 else focusedBranchIndex s + 1) \<and>
   focusedBranchIndex (handleBranchKeyDown ArrowUp s) =
     (if focusedBranchIndex s - 1 < 0 then branchMax s else focusedBranchIndex s - 1)"
  by (simp add: handleBranchKeyDown_def Let_def)

text \<open>An arrow key changes nothing that the bound depends on.\<close>

lemma repo_arrow_keeps_max:
  "k = ArrowDown \<or> k = ArrowUp \<Longrightarrow> repoMax (handleRepoKeyDown k s) = repoMax s"
  by (auto simp: handleRepoKeyDown_def repoMax_def showCreateNewRepo_def filteredReposList_def
        Let_def)

lemma branch_arrow_keeps_max:
  "k = ArrowDown \<or> k = ArrowUp \<Longrightarrow> branchMax (handleBranchKeyDown k s) = branchMax s"
  by (auto simp: handleBranchKeyDown_def branchMax_def showCreateNewBranch_def
        filteredBranchesList_def Let_def)

text \<open>
  C9, as stated, puts the focused index into \<open>[0, max]\<close> after every arrow key on an open
  dropdown. A connected user without repositories who opens the repository dropdown sees
  the notice only: the query is blank, the list is empty, \<open>max\<close> is \<open>-1\<close>. ArrowDown moves
  the index from \<open>-1\<close> to \<open>0\<close>, above \<open>max\<close>, and ArrowUp leaves it at \<open>-1\<close>, below \<open>0\<close>.
\<close>

theorem arrow_keys_leave_range_on_empty_dropdown:
  "isRepoDropdownOpen noReposState \<and>
   repoDropdown noReposState = Some [NoneFound] \<and>
   repoMax noReposState = -1 \<and>
   focusedRepoIndex noReposState = -1 \<and>
   focusedRepoIndex (handleRepoKeyDown ArrowDown noReposState) = 0 \<and>
   \<not> focusedRepoIndex (handleRepoKeyDown ArrowDown noReposState) \<le> repoMax noReposState \<and>
   focusedRepoIndex (handleRepoKeyDown ArrowUp noReposState) = -1 \<and>
   \<not> 0 \<le> focusedRepoIndex (handleRepoKeyDown ArrowUp noReposState)"
  by code_simp

text \<open>
  C9, amended. While a combobox dropdown is open and has a row to focus (\<open>max\<close> is at least
  \<open>0\<close>), an ArrowDown or ArrowUp key event on a focused index in \<open>[-1, max]\<close> leaves the
  index in \<open>[0, max]\<close>, where \<open>max\<close> is the length of the filtered list when the row that
  creates a new entry is shown and that length minus one otherwise. On every open
  dropdown ArrowDown from \<open>max\<close> gives \<open>0\<close>, and ArrowUp from \<open>0\<close> or from \<open>-1\<close> gives
  \<open>max\<close>.
\<close>

theorem arrow_keys_keep_focus_in_range:
  "(isRepoDropdownOpen s \<longrightarrow>
      repoMax s = (if showCreateNewRepo s then int (length (filteredReposList s))
                   else int (length (filteredReposList s)) - 1) \<and>
      (k = ArrowDown \<or> k = ArrowUp \<longrightarrow>
         0 \<le> repoMax s \<longrightarrow> -1 \<le> focusedRepoIndex s \<longrightarrow> focusedRepoIndex s \<le> repoMax s \<longrightarrow>
           0 \<le> focusedRepoIndex (handleRepoKeyDown k s) \<and>
           focusedRepoIndex (handleRepoKeyDown k s) \<le> repoMax s) \<and>
      (focusedRepoIndex s = repoMax s \<longrightarrow>
         focusedRepoIndex (handleRepoKeyDown ArrowDown s) = 0) \<and>
      (focusedRepoIndex s = 0 \<or> focusedRepoIndex s = -1 \<longrightarrow>
         focusedRepoIndex (handleRepoKeyDown ArrowUp s) = repoMax s)) \<and>
   (isBranchDropdownOpen s \<longrightarrow>
      branchMax s = (if showCreateNewBranch s then int (length (filteredBranchesList s))
                     else int (length (filteredBranchesList s)) - 1) \<and>
      (k = ArrowDown \<or> k = ArrowUp \<longrightarrow>
         0 \<le> branchMax s \<longrightarrow> -1 \<le> focusedBranchIndex s \<longrightarrow>
         focusedBranchIndex s \<le> branchMax s \<longrightarrow>
           0 \<le> focusedBranchIndex (handleBranchKeyDown k s) \<and>
           focusedBranchIndex (handleBranchKeyDown k s) \<le> branchMax s) \<and>
      (focusedBranchIndex s = branchMax s \<longrightarrow>
         focusedBranchIndex (handleBranchKeyDown ArrowDown s) = 0) \<and>
      (focusedBranchIndex s = 0 \<or> focusedBranchIndex s = -1 \<longrightarrow>
         focusedBranchIndex (handleBranchKeyDown ArrowUp s) = branchMax s))"
proof -
  have repo: "0 \<le> focusedRepoIndex (handleRepoKeyDown k s) \<and>
              focusedRepoIndex (handleRepoKeyDown k s) \<le> repoMax s"
    if "isRepoDropdownOpen s" "k = ArrowDown \<or> k = ArrowUp" "0 \<le> repoMax s"
       "-1 \<le> focusedRepoIndex s" "focusedRepoIndex s \<le> repoMax s"
    using that repo_arrow_index [of s] by auto
  have branch: "0 \<le> focusedBranchIndex (handleBranchKeyDown k s) \<and>
                focusedBranchIndex (handleBranchKeyDown k s) \<le> branchMax s"
    if "isBranchDropdownOpen s" "k = ArrowDown \<or> k = ArrowUp" "0 \<le> branchMax s"
       "-1 \<le> focusedBranchIndex s" "focusedBranchIndex s \<le> branchMax s"
    using that branch_arrow_index [of s] by auto
  have wrapRepo:
    "focusedRepoIndex s = repoMax s \<longrightarrow> focusedRepoIndex (handleRepoKeyDown ArrowDown s) = 0"
    "focusedRepoIndex s = 0 \<or> focusedRepoIndex s = -1 \<longrightarrow>
       focusedRepoIndex (handleRepoKeyDown ArrowUp s) = repoMax s"
    if "isRepoDropdownOpen s"
    using that repo_arrow_index [of s] by auto
  have wrapBranch:
    "focusedBranchIndex s = branchMax s \<longrightarrow>
       focusedBranchIndex (handleBranchKeyDown ArrowDown s) = 0"
    "focusedBranchIndex s = 0 \<or> focusedBranchIndex s = -1 \<longrightarrow>
       focusedBranchIndex (handleBranchKeyDown ArrowUp s) = branchMax s"
    if "isBranchDropdownOpen s"
    using that branch_arrow_index [of s] by auto
  show ?thesis
    using repo branch wrapRepo wrapBranch
    by (simp only: repoMax_def branchMax_def) blast
qed

theorem arrow_keys_keep_focus_in_range_witness:
  "isRepoDropdownOpen partialMatchState \<and> isBranchDropdownOpen searchingState \<and>
   repoMax partialMatchState = 2 \<and> focusedRepoIndex partialMatchState = -1 \<and>
   focusedRepoIndex (handleRepoKeyDown ArrowDown partialMatchState) = 0 \<and>
   focusedRepoIndex (handleRepoKeyDown ArrowUp partialMatchState) = 2 \<and>
   branchMax searchingState = 1 \<and>
   focusedBranchIndex (searchingState\<lparr>focusedBranchIndex := 1\<rparr>) = 1 \<and>
   focusedBranchIndex (handleBranchKeyDown ArrowDown (searchingState\<lparr>focusedBranchIndex := 1\<rparr>)) = 0 \<and>
   focusedBranchIndex (handleBranchKeyDown ArrowUp (searchingState\<lparr>focusedBranchIndex := 1\<rparr>)) = 0 \<and>
   0 \<le> focusedRepoIndex (handleRepoKeyDown ArrowUp partialMatchState) \<and>
   focusedRepoIndex (handleRepoKeyDown ArrowUp partialMatchState) \<le> repoMax partialMatchState \<and>
   0 \<le> focusedBranchIndex
          (handleBranchKeyDown ArrowDown (searchingState\<lparr>focusedBranchIndex := 1\<rparr>)) \<and>
   focusedBranchIndex (handleBranchKeyDown ArrowDown (searchingState\<lparr>focusedBranchIndex := 1\<rparr>))
     \<le> branchMax (searchingState\<lparr>focusedBranchIndex := 1\<rparr>)"
proof -
  let ?b = "searchingState\<lparr>focusedBranchIndex := 1\<rparr>"
  have o: "isRepoDropdownOpen partialMatchState" "isBranchDropdownOpen searchingState"
          "isBranchDropdownOpen ?b"
    by code_simp+
  have m: "repoMax partialMatchState = 2" "focusedRepoIndex partialMatchState = -1"
          "branchMax searchingState = 1" "branchMax ?b = 1" "focusedBranchIndex ?b = 1"
    by code_simp+
  have v: "focusedRepoIndex (handleRepoKeyDown ArrowDown partialMatchState) = 0"
          "focusedRepoIndex (handleRepoKeyDown ArrowUp partialMatchState) = 2"
          "focusedBranchIndex (handleBranchKeyDown ArrowUp ?b) = 0"
    by code_simp+
  have r: "0 \<le> focusedRepoIndex (handleRepoKeyDown ArrowUp partialMatchState) \<and>
           focusedRepoIndex (handleRepoKeyDown ArrowUp partialMatchState)
             \<le> repoMax partialMatchState"
    using arrow_keys_keep_focus_in_range [of partialMatchState ArrowUp] o m by simp
  have b: "0 \<le> focusedBranchIndex (handleBranchKeyDown ArrowDown ?b) \<and>
           focusedBranchIndex (handleBranchKeyDown ArrowDown ?b) \<le> branchMax ?b \<and>
           focusedBranchIndex (handleBranchKeyDown ArrowDown ?b) = 0"
    using arrow_keys_keep_focus_in_range [of ?b ArrowDown] o m by simp
  show ?thesis using o m v r b by simp
qed

section \<open>Closing and resetting: the reset\<close>

text \<open>
  What the effect on \<open>isOpen\<close> does when the dialog becomes closed: the repository name
  and both search queries are empty, the branch name is \<open>main\<close>, the commit message is
  \<open>Initial commit\<close>, both dropdowns are closed, both focus indices are \<open>-1\<close>, and the error
  message, the success dialog, the confirmation dialog and the commit message dialog are
  cleared. These are the values of the initial state. The effect leaves the \<open>private\<close>
  checkbox as it is; \<open>handleClose\<close> clears it.
\<close>

lemma reset_when_closed:
  "repoName (resetEffect False s) = '''' \<and>
   repoSearchQuery (resetEffect False s) = '''' \<and>
   branchSearchQuery (resetEffect False s) = '''' \<and>
   branchName (resetEffect False s) = ''main'' \<and>
   commitMessage (resetEffect False s) = ''Initial commit'' \<and>
   isRepoDropdownOpen (resetEffect False s) = False \<and>
   isBranchDropdownOpen (resetEffect False s) = False \<and>
   focusedRepoIndex (resetEffect False s) = -1 \<and>
   focusedBranchIndex (resetEffect False s) = -1 \<and>
   errorMessage (resetEffect False s) = '''' \<and>
   showSuccessDialog (resetEffect False s) = False \<and>
   createdRepoUrl (resetEffect False s) = '''' \<and>
   showConfirmDialog (resetEffect False s) = False \<and>
   confirmDialogMessage (resetEffect False s) = '''' \<and>
   showCommitDialog (resetEffect False s) = False \<and>
   isPrivate (resetEffect False s) = isPrivate s \<and>
   isPrivate (resetEffect False (handleClose s)) = False \<and>
   resetEffect False s =
     s\<lparr>repoName := repoName (initialState c), repoSearchQuery := repoSearchQuery (initialState c),
       branchSearchQuery := branchSearchQuery (initialState c),
       branchName := branchName (initialState c),
       commitMessage := commitMessage (initialState c),
       isRepoDropdownOpen := isRepoDropdownOpen (initialState c),
       isBranchDropdownOpen := isBranchDropdownOpen (initialState c),
       focusedRepoIndex := focusedRepoIndex (initialState c),
       focusedBranchIndex := focusedBranchIndex (initialState c),
       errorMessage := errorMessage (initialState c),
       showSuccessDialog := showSuccessDialog (initialState c),
       createdRepoUrl := createdRepoUrl (initialState c),
       showConfirmDialog := showConfirmDialog (initialState c),
       confirmDialogMessage := confirmDialogMessage (initialState c),
       showCommitDialog := showCommitDialog (initialState c)\<rparr>"
  by (simp add: resetEffect_def initialState_def handleClose_def)

text \<open>
  C10. The user ticks the \<open>private\<close> checkbox, and the dialog is closed from outside:
  \<open>isOpen\<close> becomes false and \<open>handleClose\<close> has not run. The effect empties the
  repository name, but the checkbox stays ticked, where the initial state has it clear:
  not all state of the form is reset. After \<open>handleClose\<close> the checkbox is clear.
\<close>

theorem reset_leaves_private_checkbox:
  "isPrivate tickedState \<and> repoName tickedState = ''Foo-Bar'' \<and>
   repoName (resetEffect False tickedState) = '''' \<and>
   isPrivate (resetEffect False tickedState) \<and>
   \<not> isPrivate (initialState (Some octocatConnection)) \<and>
   \<not> isPrivate (resetEffect False (handleClose tickedState))"
  by code_simp

section \<open>Submission workflow: validation and the choice of dialog\<close>

lemma connectedUser_None_iff:
  "connectedUser conn = None \<longleftrightarrow>
     (\<forall>c. conn = Some c \<longrightarrow> \<not> truthy (conn_token c) \<or> conn_user c = None)"
  by (cases conn) (auto simp: connectedUser_def)

lemma branchNameRegex_iff:
  "branchNameRegex b \<longleftrightarrow> b \<noteq> '''' \<and> (\<forall>ch \<in> set b. isBranchChar ch)"
  by (simp add: branchNameRegex_def list_all_iff)

lemma trim_Nil: "trim '''' = ''''"
  by (simp add: trim_def)

lemma handleSubmit_valid:
  assumes "connectedUser (localStorage s) = Some u" "trim (repoName s) \<noteq> ''''"
    "trim (branchName s) \<noteq> ''''" "branchNameRegex (branchName s)"
  shows "handleSubmit api s =
     (case checkExistence api (login u) (repoName s) (branchName s) of
        (Inl error, calls) \<Rightarrow>
          (submitFailed error (s\<lparr>errorMessage := '''', isLoading := True\<rparr>), calls)
      | (Inr (repoExists, branchExists, repoData), calls) \<Rightarrow>
          if repoExists \<and> (branchExists \<or> visibilityChanges repoData (isPrivate s)) then
            (s\<lparr>errorMessage := '''', confirmDialogMessage :=
                 confirmMessage (branchName s) (repoName s) branchExists repoData (isPrivate s),
               showConfirmDialog := True, isLoading := False\<rparr>, calls)
          else (s\<lparr>errorMessage := '''', showCommitDialog := True, isLoading := False\<rparr>, calls))"
proof -
  obtain r calls where c: "checkExistence api (login u) (repoName s) (branchName s) = (r, calls)"
    by (cases "checkExistence api (login u) (repoName s) (branchName s)")
  show ?thesis
  proof (cases r)
    case (Inl error)
    with c assms show ?thesis by (simp add: handleSubmit_def Let_def)
  next
    case (Inr found)
    obtain repoExists branchExists repoData where "found = (repoExists, branchExists, repoData)"
      by (cases found)
    with Inr c assms show ?thesis by (auto simp: handleSubmit_def Let_def)
  qed
qed

lemma status_404:
  "err_status e = Some 404 \<Longrightarrow> \<exists>message. e = ErrorObject (Some 404) message"
  by (cases e) simp_all

text \<open>
  C1. Take a submission that passes the validation and whose existence checks succeed:
  the repository lookup resolves or fails with status 404, and so does the branch lookup
  when it is made. Then \<open>handleSubmit\<close> opens the confirmation dialog exactly when the
  repository exists and either the branch exists or the repository's \<open>private\<close> flag
  differs from the selected \<open>isPrivate\<close>; in every other case it opens the commit message
  dialog. A dialog that \<open>handleSubmit\<close> does not open keeps its state.
\<close>

theorem confirm_dialog_iff_collision:
  assumes "connectedUser (localStorage s) = Some u" "trim (repoName s) \<noteq> ''''"
    "trim (branchName s) \<noteq> ''''" "branchNameRegex (branchName s)"
    and "\<forall>e. repos_get api (login u) (repoName s) = Rejects e \<longrightarrow> err_status e = Some 404"
    and "\<forall>p e. repos_get api (login u) (repoName s) = Resolves p \<longrightarrow>
           git_getRef api (login u) (repoName s) (''heads/'' @ trim (branchName s)) = Rejects e \<longrightarrow>
           err_status e = Some 404"
  shows "(showConfirmDialog (fst (handleSubmit api s)) \<longleftrightarrow>
            showConfirmDialog s \<or>
            (\<exists>p. repos_get api (login u) (repoName s) = Resolves p \<and>
                 ((\<exists>x. git_getRef api (login u) (repoName s) (''heads/'' @ trim (branchName s))
                         = Resolves x) \<or>
                  p \<noteq> isPrivate s))) \<and>
         (showCommitDialog (fst (handleSubmit api s)) \<longleftrightarrow>
            showCommitDialog s \<or>
            \<not> (\<exists>p. repos_get api (login u) (repoName s) = Resolves p \<and>
                 ((\<exists>x. git_getRef api (login u) (repoName s) (''heads/'' @ trim (branchName s))
                         = Resolves x) \<or>
                  p \<noteq> isPrivate s)))"
proof (cases "repos_get api (login u) (repoName s)")
  case (Rejects e)
  with assms(5) have "err_status e = Some 404" by simp
  then obtain message where "e = ErrorObject (Some 404) message"
    using status_404 by blast
  with Rejects show ?thesis
    by (simp add: handleSubmit_valid [OF assms(1-4)] checkExistence_def visibilityChanges_def)
next
  case (Resolves p)
  show ?thesis
  proof (cases "git_getRef api (login u) (repoName s) (''heads/'' @ trim (branchName s))")
    case r: (Resolves x)
    with Resolves show ?thesis
      by (simp add: handleSubmit_valid [OF assms(1-4)] checkExistence_def visibilityChanges_def)
  next
    case r: (Rejects e)
    with assms(6) Resolves have "err_status e = Some 404" by simp
    then obtain message where "e = ErrorObject (Some 404) message"
      using status_404 by blast
    with Resolves r show ?thesis
      by (simp add: handleSubmit_valid [OF assms(1-4)] checkExistence_def visibilityChanges_def)
  qed
qed

theorem confirm_dialog_iff_collision_witness:
  "connectedUser (localStorage readyState) = Some octocat \<and>
   trim (repoName readyState) \<noteq> [] \<and> trim (branchName readyState) \<noteq> [] \<and>
   branchNameRegex (branchName readyState) \<and>
   repos_get exampleOctokit (login octocat) (repoName readyState) = Resolves False \<and>
   git_getRef exampleOctokit (login octocat) (repoName readyState)
     (''heads/'' @ trim (branchName readyState)) = Resolves () \<and>
   showConfirmDialog (fst (handleSubmit exampleOctokit readyState)) \<and>
   \<not> showCommitDialog (fst (handleSubmit exampleOctokit readyState)) \<and>
   connectedUser (localStorage freshState) = Some octocat \<and>
   trim (repoName freshState) \<noteq> [] \<and> trim (branchName freshState) \<noteq> [] \<and>
   branchNameRegex (branchName freshState) \<and>
   repos_get exampleOctokit (login octocat) (repoName freshState) = Rejects notFound \<and>
   err_status notFound = Some 404 \<and>
   \<not> showConfirmDialog (fst (handleSubmit exampleOctokit freshState)) \<and>
   showCommitDialog (fst (handleSubmit exampleOctokit freshState))"
proof -
  have r: "connectedUser (localStorage readyState) = Some octocat"
          "trim (repoName readyState) \<noteq> []" "trim (branchName readyState) \<noteq> []"
          "branchNameRegex (branchName readyState)"
    by code_simp+
  have f: "connectedUser (localStorage freshState) = Some octocat"
          "trim (repoName freshState) \<noteq> []" "trim (branchName freshState) \<noteq> []"
          "branchNameRegex (branchName freshState)"
    by code_simp+
  have a: "repos_get exampleOctokit (login octocat) (repoName readyState) = Resolves False"
          "git_getRef exampleOctokit (login octocat) (repoName readyState)
             (''heads/'' @ trim (branchName readyState)) = Resolves ()"
          "repos_get exampleOctokit (login octocat) (repoName freshState) = Rejects notFound"
          "err_status notFound = Some 404"
    by code_simp+
  have d: "\<not> showConfirmDialog readyState" "\<not> showCommitDialog readyState"
          "\<not> showConfirmDialog freshState" "\<not> showCommitDialog freshState"
    by code_simp+
  have 1: "showConfirmDialog (fst (handleSubmit exampleOctokit readyState)) \<and>
           \<not> showCommitDialog (fst (handleSubmit exampleOctokit readyState))"
    using confirm_dialog_iff_collision [OF r, of exampleOctokit] a d by auto
  have 2: "\<not> showConfirmDialog (fst (handleSubmit exampleOctokit freshState)) \<and>
           showCommitDialog (fst (handleSubmit exampleOctokit freshState))"
    using confirm_dialog_iff_collision [OF f, of exampleOctokit] a d by auto
  show ?thesis using r f a 1 2 by simp
qed

text \<open>
  C8. \<open>handleSubmit\<close> validates before any call of the GitHub API. If the stored
  connection lacks a token or a user, or the repository name is blank after trimming, or
  the branch name is blank or has a character outside \<open>[a-zA-Z0-9._/-]\<close>, then the only
  change of the state is the error message of the first failed check, no call is made,
  and neither the confirmation dialog nor the commit message dialog is opened.
\<close>

theorem handleSubmit_validates_before_any_call:
  assumes "(\<forall>c. localStorage s = Some c \<longrightarrow> \<not> truthy (conn_token c) \<or> conn_user c = None) \<or>
           trim (repoName s) = '''' \<or> trim (branchName s) = '''' \<or>
           (\<exists>ch \<in> set (branchName s). \<not> isBranchChar ch)"
  shows "handleSubmit api s =
           (s\<lparr>errorMessage :=
                if (\<forall>c. localStorage s = Some c \<longrightarrow> \<not> truthy (conn_token c) \<or> conn_user c = None)
                then ''Please connect your GitHub account in Settings > Connections first''
                else if trim (repoName s) = '''' then ''Repository name is required''
                else ''Please enter a valid branch name.''\<rparr>, []) \<and>
         snd (handleSubmit api s) = [] \<and>
         showConfirmDialog (fst (handleSubmit api s)) = showConfirmDialog s \<and>
         showCommitDialog (fst (handleSubmit api s)) = showCommitDialog s"
proof -
  have "handleSubmit api s =
           (s\<lparr>errorMessage :=
                if (\<forall>c. localStorage s = Some c \<longrightarrow> \<not> truthy (conn_token c) \<or> conn_user c = None)
                then ''Please connect your GitHub account in Settings > Connections first''
                else if trim (repoName s) = '''' then ''Repository name is required''
                else ''Please enter a valid branch name.''\<rparr>, [])"
  proof (cases "connectedUser (localStorage s)")
    case None
    then show ?thesis
      using connectedUser_None_iff [of "localStorage s"] by (simp add: handleSubmit_def)
  next
    case (Some u)
    then have "\<not> (\<forall>c. localStorage s = Some c \<longrightarrow> \<not> truthy (conn_token c) \<or> conn_user c = None)"
      using connectedUser_None_iff [of "localStorage s"] by simp
    note noConn = this
    show ?thesis
    proof (cases "trim (repoName s) = ''''")
      case True
      with Some noConn show ?thesis by (simp add: handleSubmit_def)
    next
      case False
      with assms noConn
      have "trim (branchName s) = '''' \<or> \<not> branchNameRegex (branchName s)"
        by (auto simp: branchNameRegex_iff)
      with Some noConn False show ?thesis by (simp add: handleSubmit_def)
    qed
  qed
  then show ?thesis by simp
qed

theorem handleSubmit_validates_before_any_call_witness:
  "trim (repoName connectedState) = '''' \<and>
   \<not> (\<forall>c. localStorage connectedState = Some c \<longrightarrow>
          \<not> truthy (conn_token c) \<or> conn_user c = None) \<and>
   handleSubmit exampleOctokit connectedState =
     (connectedState\<lparr>errorMessage := ''Repository name is required''\<rparr>, []) \<and>
   (\<exists>ch \<in> set (branchName (readyState\<lparr>branchName := ''my branch''\<rparr>)). \<not> isBranchChar ch) \<and>
   trim (repoName (readyState\<lparr>branchName := ''my branch''\<rparr>)) \<noteq> '''' \<and>
   handleSubmit exampleOctokit (readyState\<lparr>branchName := ''my branch''\<rparr>) =
     (readyState\<lparr>branchName := ''my branch'',
                 errorMessage := ''Please enter a valid branch name.''\<rparr>, [])"
proof -
  let ?b = "readyState\<lparr>branchName := ''my branch''\<rparr>"
  have c: "localStorage connectedState = Some octocatConnection"
          "localStorage ?b = Some octocatConnection"
          "truthy (conn_token octocatConnection)" "conn_user octocatConnection \<noteq> None"
    by code_simp+
  then have n: "\<not> (\<forall>c. localStorage connectedState = Some c \<longrightarrow>
                       \<not> truthy (conn_token c) \<or> conn_user c = None)"
               "\<not> (\<forall>c. localStorage ?b = Some c \<longrightarrow> \<not> truthy (conn_token c) \<or> conn_user c = None)"
    by simp_all
  have e: "trim (repoName connectedState) = ''''" "trim (repoName ?b) \<noteq> ''''"
          "\<exists>ch \<in> set (branchName ?b). \<not> isBranchChar ch"
    by code_simp+
  have 1: "handleSubmit exampleOctokit connectedState =
             (connectedState\<lparr>errorMessage := ''Repository name is required''\<rparr>, [])"
    using handleSubmit_validates_before_any_call [of connectedState exampleOctokit] n e by simp
  have 2: "handleSubmit exampleOctokit ?b =
             (?b\<lparr>errorMessage := ''Please enter a valid branch name.''\<rparr>, [])"
    using handleSubmit_validates_before_any_call [of ?b exampleOctokit] n e by simp
  show ?thesis using n e 1 2 by simp
qed

section \<open>Push: the outcome of the callback\<close>

lemma handleCommitProceed_connected:
  assumes "localStorage s = Some connection" "conn_user connection = Some u"
  shows "handleCommitProceed onPush s =
     (case onPush (pushArguments s connection u) of
        Resolves repoUrl \<Rightarrow>
          (s\<lparr>showCommitDialog := False, errorMessage := '''', createdRepoUrl := repoUrl,
             showSuccessDialog := True, isLoading := False\<rparr>, [pushArguments s connection u])
      | Rejects (Nullish n) \<Rightarrow>
          (s\<lparr>showCommitDialog := False, errorMessage := '''', isLoading := False\<rparr>,
           [pushArguments s connection u])
      | Rejects (ErrorObject status message) \<Rightarrow>
          (s\<lparr>showCommitDialog := False,
             errorMessage := orElse message ''Failed to push to GitHub.'',
             isLoading := False\<rparr>, [pushArguments s connection u]))"
  using assms
  by (simp add: handleCommitProceed_def Let_def split: promise.splits api_error.splits)

text \<open>
  When the push callback rejects with a value that is neither \<open>undefined\<close> nor \<open>null\<close>, the
  error message is set to the message of the error, or to \<open>Failed to push to GitHub.\<close>
  when the error has none; it is not empty. The success dialog is not opened and the
  loading flag is cleared. On a form that was showing (no success dialog, a user present)
  the view is the form with that message inline and the commit message dialog closed.
\<close>

lemma push_rejected_gives_inline_error:
  assumes "localStorage s = Some connection" "conn_user connection = Some u"
    and "onPush (pushArguments s connection u) = Rejects (ErrorObject status message)"
  shows "errorMessage (fst (handleCommitProceed onPush s)) =
           (case message of
              None \<Rightarrow> ''Failed to push to GitHub.''
            | Some m \<Rightarrow> if m = '''' then ''Failed to push to GitHub.'' else m) \<and>
         errorMessage (fst (handleCommitProceed onPush s)) \<noteq> '''' \<and>
         showSuccessDialog (fst (handleCommitProceed onPush s)) = showSuccessDialog s \<and>
         \<not> isLoading (fst (handleCommitProceed onPush s)) \<and>
         (\<not> showSuccessDialog s \<longrightarrow> user s \<noteq> None \<longrightarrow>
            render (fst (handleCommitProceed onPush s)) =
              FormView (Some (errorMessage (fst (handleCommitProceed onPush s))))
                (repoDropdown s) (branchDropdown s)
                (if showConfirmDialog s then Some (confirmDialogMessage s) else None) None)"
proof -
  let ?msg = "orElse message ''Failed to push to GitHub.''"
  have s': "fst (handleCommitProceed onPush s) =
              s\<lparr>showCommitDialog := False, errorMessage := ?msg, isLoading := False\<rparr>"
    using assms(3) by (simp add: handleCommitProceed_connected [OF assms(1,2)])
  have ne: "?msg \<noteq> ''''" by (rule orElse_nonempty) simp
  have m: "?msg = (case message of
              None \<Rightarrow> ''Failed to push to GitHub.''
            | Some m \<Rightarrow> if m = '''' then ''Failed to push to GitHub.'' else m)"
    by (cases message) simp_all
  have rd: "repoDropdown (s\<lparr>showCommitDialog := False, errorMessage := ?msg, isLoading := False\<rparr>)
              = repoDropdown s"
    by (simp add: repoDropdown_def filteredReposList_def showCreateNewRepo_def)
  have bd: "branchDropdown (s\<lparr>showCommitDialog := False, errorMessage := ?msg, isLoading := False\<rparr>)
              = branchDropdown s"
    by (simp add: branchDropdown_def filteredBranchesList_def showCreateNewBranch_def)
  show ?thesis
    unfolding s' using ne m rd bd by (simp add: render_def)
qed

lemma push_rejected_example:
  "pushRejects (pushArguments commitState octocatConnection octocat) =
     Rejects (ErrorObject None None) \<and>
   errorMessage (fst (handleCommitProceed pushRejects commitState)) = ''Failed to push to GitHub.'' \<and>
   \<not> showSuccessDialog (fst (handleCommitProceed pushRejects commitState)) \<and>
   \<not> isLoading (fst (handleCommitProceed pushRejects commitState)) \<and>
   render (fst (handleCommitProceed pushRejects commitState)) =
     FormView (Some ''Failed to push to GitHub.'') None None None None"
proof -
  have h: "localStorage commitState = Some octocatConnection"
          "conn_user octocatConnection = Some octocat"
          "pushRejects (pushArguments commitState octocatConnection octocat) =
             Rejects (ErrorObject None None)"
    by code_simp+
  have v: "\<not> showSuccessDialog commitState" "user commitState \<noteq> None"
          "repoDropdown commitState = None" "branchDropdown commitState = None"
          "\<not> showConfirmDialog commitState"
    by code_simp+
  show ?thesis
    using push_rejected_gives_inline_error
            [of commitState octocatConnection octocat pushRejects None None, OF h] h v
    by simp
qed

text \<open>
  C7. The commit message dialog of the example is confirmed, and the push callback
  rejects with \<open>undefined\<close>. The callback was called, the loading flag is cleared and the
  success dialog is not opened, but the error message is empty: the form shows no inline
  error message at all.
\<close>

theorem push_rejected_with_undefined_sets_no_message:
  "pushRejectsUndefined (pushArguments commitState octocatConnection octocat) =
     Rejects (Nullish Undefined) \<and>
   snd (handleCommitProceed pushRejectsUndefined commitState) =
     [pushArguments commitState octocatConnection octocat] \<and>
   errorMessage (fst (handleCommitProceed pushRejectsUndefined commitState)) = '''' \<and>
   \<not> isLoading (fst (handleCommitProceed pushRejectsUndefined commitState)) \<and>
   \<not> showSuccessDialog (fst (handleCommitProceed pushRejectsUndefined commitState)) \<and>
   render (fst (handleCommitProceed pushRejectsUndefined commitState)) =
     FormView None None None None None"
  by code_simp

section \<open>Result views: after the push\<close>

text \<open>
  After the push callback resolves, the view is the success dialog with the URL that the
  callback returned; the rows of its \<open>Pushed Files\<close> section are the entries of
  \<open>filteredRepos\<close>, which its effect takes from the user's repositories.
\<close>

lemma filteredRepos_from_recentRepos:
  "set (filteredRepos (filteredReposEffect s)) \<subseteq> set (recentRepos s)"
  by (auto simp: filteredReposEffect_def Let_def)

lemma push_resolved_view:
  assumes "localStorage s = Some connection" "conn_user connection = Some u"
    and "onPush (pushArguments s connection u) = Resolves repoUrl"
  shows "render (fst (handleCommitProceed onPush s)) =
           SuccessView repoUrl (map (\<lambda>repo. (name repo, private_repo repo)) (filteredRepos s))"
  using assms(3) by (simp add: handleCommitProceed_connected [OF assms(1,2)] render_def)

text \<open>
  C2. The user of the example pushes to the new repository \<open>fresh\<close>, and the callback
  resolves with its URL. The success dialog shows that URL. Its \<open>Pushed Files\<close> section
  lists \<open>Foo-Bar\<close>, \<open>baz\<close> and \<open>food\<close>: the user's repositories, none of them a file of
  the push, \<open>baz\<close> with the \<open>Private\<close> badge.
\<close>

theorem pushed_files_section_lists_repositories:
  "snd (handleCommitProceed pushResolves commitState) =
     [\<lparr> push_repoName = ''fresh'', push_username = ''octocat'', push_token = Some ''ghp_token'',
        push_isPrivate = False, push_branchName = ''dev'',
        push_commitMessage = ''Initial commit'' \<rparr>] \<and>
   render (fst (handleCommitProceed pushResolves commitState)) =
     SuccessView ''https://github.com/octocat/fresh''
       [(''Foo-Bar'', False), (''baz'', True), (''food'', False)]"
  by code_simp

section \<open>Repository lister: pagination\<close>

lemma typedRepos_map_Repo: "typedRepos (map Repo repos) = Some repos"
  by (induction repos) simp_all

lemma setRecentRepos_typed:
  "setRecentRepos (map Repo repos) s = Returned (s\<lparr>recentRepos := repos\<rparr>)"
  by (simp add: setRecentRepos_def typedRepos_map_Repo)

text \<open>
  The loop over pages whose responses are all ok and parse to lists: every page but the
  last has 100 entries or more, the last has fewer.
\<close>

lemma fetchLoop_pages:
  assumes "pages \<noteq> []"
    and "\<forall>i < length pages. srv (ListRepos 100 (pg + i)) = OkResponse (Some (pages ! i))"
    and "\<forall>p \<in> set (butlast pages). 100 \<le> length p"
    and "length (last pages) < 100"
    and "length pages \<le> fuel"
  shows "fetchLoop fuel srv s (map Repo acc) pg reqs =
           (Returned (s\<lparr>recentRepos := acc @ concat pages\<rparr>),
            reqs @ map (ListRepos 100) [pg ..< pg + length pages])"
  using assms
proof (induction pages arbitrary: fuel acc pg reqs)
  case Nil
  then show ?case by simp
next
  case (Cons p ps)
  from Cons.prems(5) obtain k where fuel: "fuel = Suc k" and k: "length ps \<le> k"
    by (cases fuel) auto
  from Cons.prems(2) have here: "srv (ListRepos 100 pg) = OkResponse (Some p)"
    by force
  have entries: "map Repo acc @ map Repo p = map Repo (acc @ p)" by simp
  show ?case
  proof (cases "ps = []")
    case True
    with Cons.prems(4) have "length p < 100" by simp
    with True here fuel show ?thesis
      unfolding fuel by (simp add: upt_rec entries setRecentRepos_typed del: map_append)
  next
    case False
    with Cons.prems(3) have big: "\<not> length p < 100" by auto
    have shift: "\<forall>i < length ps. srv (ListRepos 100 (Suc pg + i)) = OkResponse (Some (ps ! i))"
    proof (intro allI impI)
      fix i assume "i < length ps"
      then have "Suc i < length (p # ps)" by simp
      with Cons.prems(2) have "srv (ListRepos 100 (pg + Suc i)) = OkResponse (Some ((p # ps) ! Suc i))"
        by blast
      then show "srv (ListRepos 100 (Suc pg + i)) = OkResponse (Some (ps ! i))" by simp
    qed
    have rest: "\<forall>q \<in> set (butlast ps). 100 \<le> length q"
      using Cons.prems(3) False by simp
    have lst: "length (last ps) < 100"
      using Cons.prems(4) False by simp
    have step: "fetchLoop (Suc k) srv s (map Repo acc) pg reqs =
                  fetchLoop k srv s (map Repo (acc @ p)) (Suc pg) (reqs @ [ListRepos 100 pg])"
      using here big by (simp add: entries del: map_append)
    have reqs: "(reqs @ [ListRepos 100 pg]) @ map (ListRepos 100) [Suc pg ..< Suc pg + length ps] =
                reqs @ map (ListRepos 100) [pg ..< pg + length (p # ps)]"
      by (subst (2) upt_conv_Cons) simp_all
    have "fetchLoop fuel srv s (map Repo acc) pg reqs =
            fetchLoop k srv s (map Repo (acc @ p)) (Suc pg) (reqs @ [ListRepos 100 pg])"
      unfolding fuel by (rule step)
    also have "\<dots> = (Returned (s\<lparr>recentRepos := (acc @ p) @ concat ps\<rparr>),
             (reqs @ [ListRepos 100 pg]) @ map (ListRepos 100) [Suc pg ..< Suc pg + length ps])"
      by (rule Cons.IH [OF False shift rest lst k])
    also have "\<dots> = (Returned (s\<lparr>recentRepos := acc @ concat (p # ps)\<rparr>),
             reqs @ map (ListRepos 100) [pg ..< pg + length (p # ps)])"
      unfolding reqs by simp
    finally show ?thesis .
  qed
qed

text \<open>
  C3. The repository lister asks for page 1, 2, ... with 100 repositories per page. When
  every request succeeds, up to the first page with fewer than 100 entries, the list
  \<open>recentRepos\<close> becomes the concatenation of the pages in the order of the requests,
  each page in the order of the response; nothing else of the state changes.
\<close>

theorem fetchRecentRepos_concatenates_pages:
  assumes "token \<noteq> ''''" and "pages \<noteq> []"
    and "\<forall>i < length pages. srv (ListRepos 100 (Suc i)) = OkResponse (Some (pages ! i))"
    and "\<forall>p \<in> set (butlast pages). 100 \<le> length p"
    and "length (last pages) < 100"
    and "length pages \<le> fuel"
  shows "fetchRecentRepos fuel srv token s =
           (Returned (s\<lparr>recentRepos := concat pages\<rparr>),
            map (ListRepos 100) [1 ..< Suc (length pages)])"
proof -
  have "\<forall>i < length pages. srv (ListRepos 100 (1 + i)) = OkResponse (Some (pages ! i))"
    using assms(3) by simp
  from fetchLoop_pages [OF assms(2) this assms(4,5,6), of s "[]" "[]"] assms(1)
  show ?thesis by (simp add: fetchRecentRepos_def)
qed

theorem fetchRecentRepos_concatenates_pages_witness:
  "fetchRecentRepos 2 twoPages ''ghp_token'' connectedState =
     (Returned (connectedState\<lparr>recentRepos :=
              replicate 100 (mkRepo ''old'' False) @ [mkRepo ''Foo-Bar'' False, mkRepo ''baz'' True]\<rparr>),
      [ListRepos 100 1, ListRepos 100 2])"
proof -
  let ?pages = "[replicate 100 (mkRepo ''old'' False), [mkRepo ''Foo-Bar'' False, mkRepo ''baz'' True]]"
  have 1: "''ghp_token'' \<noteq> []" "?pages \<noteq> []" by simp_all
  have 2: "\<forall>i < length ?pages. twoPages (ListRepos 100 (Suc i)) = OkResponse (Some (?pages ! i))"
    by (auto simp: twoPages_def less_Suc_eq)
  have 3: "\<forall>p \<in> set (butlast ?pages). 100 \<le> length p" "length (last ?pages) < 100"
          "length ?pages \<le> 2"
    by simp_all
  have u: "[1 ..< Suc (length ?pages)] = [1, 2]" by (simp add: upt_rec)
  show ?thesis
    using fetchRecentRepos_concatenates_pages [OF 1 2 3, of connectedState] u
    by simp
qed

text \<open>
  A response after which the loop does not go on ends the run. A request for a later
  page is made only after a response after which the loop goes on: a full page, or a
  body that is not a list and has no \<open>length\<close> below 100.
\<close>

lemma goesOn_iff:
  "goesOn r \<longleftrightarrow>
     (\<exists>repos. r = OkResponse (Some repos) \<and> 100 \<le> length repos) \<or> r = OkNotArray (JsonValue False)"
  by (auto simp: goesOn_def fullPage_def split: http_response.splits option.splits)

lemma fetchLoop_step:
  "fetchLoop (Suc fuel) srv s acc pg reqs =
     (if goesOn (srv (ListRepos 100 pg)) then
        fetchLoop fuel srv s
          (acc @ (case srv (ListRepos 100 pg) of OkResponse (Some repos) \<Rightarrow> map Repo repos
                  | _ \<Rightarrow> [NotARepo]))
          (Suc pg) (reqs @ [ListRepos 100 pg])
      else (fst (fetchLoop (Suc fuel) srv s acc pg reqs), reqs @ [ListRepos 100 pg]))"
  by (auto simp: goesOn_iff Let_def split: http_response.splits option.splits not_array.splits)

lemma fetchLoop_stops:
  "\<not> goesOn (srv (ListRepos 100 pg)) \<Longrightarrow> fst (fetchLoop (Suc fuel) srv s acc pg reqs) \<noteq> Unfinished"
  by (auto simp: goesOn_iff Let_def setRecentRepos_def
           split: http_response.splits option.splits not_array.splits)

lemma fetchLoop_terminates:
  assumes "pg \<le> n" "\<not> goesOn (srv (ListRepos 100 n))" "n - pg < fuel"
  shows "fst (fetchLoop fuel srv s acc pg reqs) \<noteq> Unfinished"
  using assms
proof (induction fuel arbitrary: acc pg reqs)
  case 0
  then show ?case by simp
next
  case (Suc fuel)
  show ?case
  proof (cases "goesOn (srv (ListRepos 100 pg))")
    case True
    with Suc.prems(2) have "pg \<noteq> n" by auto
    with Suc.prems have "Suc pg \<le> n" "n - Suc pg < fuel" by auto
    from Suc.IH [OF this(1) Suc.prems(2) this(2)] True show ?thesis
      by (subst fetchLoop_step) simp
  next
    case False
    then show ?thesis by (rule fetchLoop_stops)
  qed
qed

lemma fetchLoop_requests:
  assumes "rq \<in> set (snd (fetchLoop fuel srv s acc pg reqs))" and "rq \<notin> set reqs"
  shows "per_page rq = 100 \<and> pg \<le> page rq \<and>
         (pg < page rq \<longrightarrow> goesOn (srv (ListRepos 100 (page rq - 1))))"
  using assms
proof (induction fuel arbitrary: acc pg reqs)
  case 0
  then show ?case by simp
next
  case (Suc fuel)
  show ?case
  proof (cases "rq = ListRepos 100 pg")
    case True
    then show ?thesis by simp
  next
    case False
    with Suc.prems(2) have notin: "rq \<notin> set (reqs @ [ListRepos 100 pg])" by simp
    show ?thesis
    proof (cases "goesOn (srv (ListRepos 100 pg))")
      case stop: False
      with Suc.prems(1) notin show ?thesis
        by (subst (asm) fetchLoop_step) simp
    next
      case go: True
      with Suc.prems(1)
      have "rq \<in> set (snd (fetchLoop fuel srv s
              (acc @ (case srv (ListRepos 100 pg) of OkResponse (Some repos) \<Rightarrow> map Repo repos
                      | _ \<Rightarrow> [NotARepo]))
              (Suc pg) (reqs @ [ListRepos 100 pg])))"
        by (subst (asm) fetchLoop_step) simp
      from Suc.IH [OF this notin]
      have ih: "per_page rq = 100" "Suc pg \<le> page rq"
        "Suc pg < page rq \<longrightarrow> goesOn (srv (ListRepos 100 (page rq - 1)))"
        by simp_all
      show ?thesis
      proof (cases "page rq = Suc pg")
        case True
        with go ih show ?thesis by simp
      next
        case False
        with ih show ?thesis by simp
      qed
    qed
  qed
qed

text \<open>
  So, over responses of any kind: if some page is answered with a response that is not
  ok, does not parse, is a list of fewer than 100 repositories, or with a throwing
  \<open>fetch\<close>, the lister returns from some amount of fuel on. Every request is for 100
  repositories of a page from 1 on, and page \<open>n + 1\<close> is requested only when page \<open>n\<close> was
  answered with a list of 100 repositories or more, or with a body that is not a list.
\<close>

lemma pagination_terminates:
  "((\<exists>n\<ge>1. srv (ListRepos 100 n) = FetchThrows \<or>
           (\<exists>st tx rm rs b. srv (ListRepos 100 n) = NotOk st tx rm rs b) \<or>
           srv (ListRepos 100 n) = OkResponse None \<or>
           (\<exists>repos. srv (ListRepos 100 n) = OkResponse (Some repos) \<and> length repos < 100)) \<longrightarrow>
      (\<exists>N. \<forall>fuel\<ge>N. fst (fetchRecentRepos fuel srv token s) \<noteq> Unfinished)) \<and>
   (\<forall>fuel n. 1 \<le> n \<longrightarrow> ListRepos 100 (Suc n) \<in> set (snd (fetchRecentRepos fuel srv token s)) \<longrightarrow>
      (\<exists>repos. srv (ListRepos 100 n) = OkResponse (Some repos) \<and> 100 \<le> length repos) \<or>
      srv (ListRepos 100 n) = OkNotArray (JsonValue False)) \<and>
   (\<forall>fuel rq. rq \<in> set (snd (fetchRecentRepos fuel srv token s)) \<longrightarrow>
      per_page rq = 100 \<and> 1 \<le> page rq)"
proof (intro conjI impI allI)
  assume "\<exists>n\<ge>1. srv (ListRepos 100 n) = FetchThrows \<or>
           (\<exists>st tx rm rs b. srv (ListRepos 100 n) = NotOk st tx rm rs b) \<or>
           srv (ListRepos 100 n) = OkResponse None \<or>
           (\<exists>repos. srv (ListRepos 100 n) = OkResponse (Some repos) \<and> length repos < 100)"
  then obtain n where n: "1 \<le> n" "\<not> goesOn (srv (ListRepos 100 n))"
    by (fastforce simp: goesOn_iff)
  have "fst (fetchRecentRepos fuel srv token s) \<noteq> Unfinished" if "n \<le> fuel" for fuel
  proof (cases "token = []")
    case True
    then show ?thesis by (simp add: fetchRecentRepos_def)
  next
    case False
    from that n(1) have "n - 1 < fuel" by simp
    from fetchLoop_terminates [of 1 n srv fuel s "[]" "[]", OF n(1) n(2) this] False
    show ?thesis by (simp add: fetchRecentRepos_def)
  qed
  then show "\<exists>N. \<forall>fuel\<ge>N. fst (fetchRecentRepos fuel srv token s) \<noteq> Unfinished"
    by blast
next
  fix fuel n
  assume n: "1 \<le> n"
    and mem: "ListRepos 100 (Suc n) \<in> set (snd (fetchRecentRepos fuel srv token s))"
  then have "token \<noteq> []" by (auto simp: fetchRecentRepos_def)
  with mem have "ListRepos 100 (Suc n) \<in> set (snd (fetchLoop fuel srv s [] 1 []))"
    by (simp add: fetchRecentRepos_def)
  from fetchLoop_requests [OF this] n have "goesOn (srv (ListRepos 100 n))" by simp
  then show "(\<exists>repos. srv (ListRepos 100 n) = OkResponse (Some repos) \<and> 100 \<le> length repos) \<or>
             srv (ListRepos 100 n) = OkNotArray (JsonValue False)"
    by (simp add: goesOn_iff)
next
  fix fuel rq
  assume mem: "rq \<in> set (snd (fetchRecentRepos fuel srv token s))"
  then have "token \<noteq> []" by (auto simp: fetchRecentRepos_def)
  with mem have "rq \<in> set (snd (fetchLoop fuel srv s [] 1 []))"
    by (simp add: fetchRecentRepos_def)
  from fetchLoop_requests [OF this] show "per_page rq = 100" "1 \<le> page rq" by simp_all
qed

lemma objectPages_never_ends:
  "fst (fetchLoop fuel objectPages s acc pg reqs) = Unfinished"
  by (induction fuel arbitrary: acc pg reqs) (simp_all add: objectPages_def)

text \<open>
  C4. The network answers every page with status 200 and the body \<open>{}\<close>, which is no list
  and has no \<open>length\<close>. Page 1 has returned no repository at all, and yet the lister asks
  for page 2, and then for page 3; whatever the fuel, the loop does not end.
\<close>

theorem page_requested_after_body_that_is_no_list:
  "objectPages (ListRepos 100 1) = OkNotArray (JsonValue False) \<and>
   fetchRecentRepos 3 objectPages ''ghp_token'' connectedState =
     (Unfinished, [ListRepos 100 1, ListRepos 100 2, ListRepos 100 3]) \<and>
   (\<forall>fuel. fst (fetchRecentRepos fuel objectPages ''ghp_token'' connectedState) = Unfinished)"
proof -
  have "objectPages (ListRepos 100 1) = OkNotArray (JsonValue False)"
    by (simp add: objectPages_def)
  moreover have "fetchRecentRepos 3 objectPages ''ghp_token'' connectedState =
     (Unfinished, [ListRepos 100 1, ListRepos 100 2, ListRepos 100 3])"
    by code_simp
  moreover have "fst (fetchRecentRepos fuel objectPages ''ghp_token'' connectedState) = Unfinished"
    for fuel
    by (simp add: fetchRecentRepos_def objectPages_never_ends)
  ultimately show ?thesis by blast
qed

end
